theory Spec2Isabelle
  imports Complex_Main "HOL-Library.Char_ord" "HOL-Library.List_Lexorder"
begin

section \<open>JavaScript values, rows and strings\<close>

text \<open>
  The converter (\<open>json_to_excel.js\<close>) reads JSON arrays of flat row objects and
  builds one sheet per report. A cell is a JSON scalar; a property that a row does
  not have reads as \<open>undefined\<close>. Numbers are IEEE doubles in the program; here
  they are exact reals, so every statement about arithmetic is about the exact value
  (it agrees with the program wherever the doubles involved are exact, for instance on
  integers below \<open>2^53\<close>). \<open>NaN\<close> only arises from coercions and is the value
  \<open>None\<close> of an optional number; infinities are not represented (the text
  \<open>Infinity\<close> reads as no number). Strings are lists of 8-bit characters standing
  for code units, compared by code unit (\<open>Char_ord\<close>, \<open>List_Lexorder\<close>). Nested
  arrays and objects as cell values are outside the model.
\<close>

datatype jsval = JUndef | JNull | JBool bool | JNum real | JStr string

text \<open>
  The only exception that the modelled code can raise itself: a property read or a
  call on \<open>undefined\<close>.
\<close>

datatype error = TypeError

text \<open>
  A row object is the list of its own properties in \<open>Object.keys\<close> order. Reading
  \<open>r[k]\<close> is \<open>get\<close>; the assignment \<open>r[k] = v\<close> is \<open>put\<close>, which overwrites
  in place or appends a new property. (JavaScript lists property names that are array
  indices before the others, and treats the name \<open>__proto__\<close> specially; neither is
  modelled for rows, and no statement below depends on the order of the keys of a
  row.)
\<close>

type_synonym row = "(string \<times> jsval) list"

definition get :: "row \<Rightarrow> string \<Rightarrow> jsval" where
  "get r k = (case map_of r k of None \<Rightarrow> JUndef | Some v \<Rightarrow> v)"

fun put :: "row \<Rightarrow> string \<Rightarrow> jsval \<Rightarrow> row" where
  "put [] k v = [(k, v)]"
| "put (p # ps) k v = (if fst p = k then (k, v) # ps else p # put ps k v)"

definition hasOwnProperty :: "row \<Rightarrow> string \<Rightarrow> bool" where
  "hasOwnProperty r k = (k \<in> set (map fst r))"

definition keys :: "row \<Rightarrow> string list" where
  "keys r = map fst r"

definition startsWith :: "string \<Rightarrow> string \<Rightarrow> bool" where
  "startsWith s p = (take (length p) s = p)"

fun includes_str :: "string \<Rightarrow> string \<Rightarrow> bool" where
  "includes_str [] p = (p = [])"
| "includes_str (c # cs) p = (startsWith (c # cs) p \<or> includes_str cs p)"

text \<open>\<open>s.split(d)\<close> for a one-character separator.\<close>

fun split :: "char \<Rightarrow> string \<Rightarrow> string list" where
  "split d [] = [[]]"
| "split d (c # cs) =
     (if c = d then [] # split d cs
      else (c # hd (split d cs)) # tl (split d cs))"

text \<open>Truthiness, as \<open>!v\<close>, \<open>v || w\<close> and \<open>if (v)\<close> test it.\<close>

fun truthy :: "jsval \<Rightarrow> bool" where
  "truthy JUndef = False"
| "truthy JNull = False"
| "truthy (JBool b) = b"
| "truthy (JNum x) = (x \<noteq> 0)"
| "truthy (JStr s) = (s \<noteq> [])"

text \<open>
  Case conversion covers the ASCII letters; other characters are left as they are.
\<close>

definition lower_ascii :: "char \<Rightarrow> char" where
  "lower_ascii c = (let n = (of_char c :: nat) in if 65 \<le> n \<and> n \<le> 90 then char_of (n + 32) else c)"

definition upper_ascii :: "char \<Rightarrow> char" where
  "upper_ascii c = (let n = (of_char c :: nat) in if 97 \<le> n \<and> n \<le> 122 then char_of (n - 32) else c)"

definition toUpperCase :: "string \<Rightarrow> string" where
  "toUpperCase s = map upper_ascii s"

text \<open>
  \<open>name.replace(/\.json$/i, "")\<close>: a final \<open>.json\<close>, in any letter case, is
  removed.
\<close>

definition strip_json :: "string \<Rightarrow> string" where
  "strip_json name =
     (if 5 \<le> length name \<and> map lower_ascii (drop (length name - 5) name) = ''.json''
      then take (length name - 5) name else name)"

section \<open>Numbers and text\<close>

definition is_digit :: "char \<Rightarrow> bool" where
  "is_digit c = (48 \<le> (of_char c :: nat) \<and> (of_char c :: nat) \<le> 57)"

definition digit_val :: "char \<Rightarrow> nat" where
  "digit_val c = of_char c - 48"

definition digit_char :: "nat \<Rightarrow> char" where
  "digit_char d = char_of (48 + d)"

definition digits_val :: "string \<Rightarrow> nat" where
  "digits_val ds = foldl (\<lambda>a c. 10 * a + digit_val c) 0 ds"

text \<open>\<open>n.toString()\<close> for a non-negative integer below \<open>10^21\<close>: plain decimal digits.\<close>

fun show_nat :: "nat \<Rightarrow> string" where
  "show_nat n = (if n < 10 then [digit_char n] else show_nat (n div 10) @ [digit_char (n mod 10)])"

declare show_nat.simps [simp del]

definition show_int :: "int \<Rightarrow> string" where
  "show_int i = (if i < 0 then CHR ''-'' # show_nat (nat (- i)) else show_nat (nat i))"

text \<open>
  \<open>String(x)\<close> for a number: exact for integers below \<open>10^21\<close> in magnitude and for
  decimal fractions of at most 20 places (larger and smaller magnitudes print in
  exponent notation in the program).
\<close>

fun frac_digits :: "nat \<Rightarrow> real \<Rightarrow> string" where
  "frac_digits 0 x = []"
| "frac_digits (Suc n) x =
     (if x = 0 then []
      else digit_char (nat \<lfloor>x * 10\<rfloor>) # frac_digits n (x * 10 - of_int \<lfloor>x * 10\<rfloor>))"

definition num_to_string :: "real \<Rightarrow> string" where
  "num_to_string x =
     (let a = \<bar>x\<bar>; i = \<lfloor>a\<rfloor>
      in (if x < 0 then ''-'' else '''') @ show_nat (nat i)
         @ (if a = of_int i then [] else CHR ''.'' # frac_digits 20 (a - of_int i)))"

fun js_to_string :: "jsval \<Rightarrow> string" where
  "js_to_string JUndef = ''undefined''"
| "js_to_string JNull = ''null''"
| "js_to_string (JBool b) = (if b then ''true'' else ''false'')"
| "js_to_string (JNum x) = num_to_string x"
| "js_to_string (JStr s) = s"

text \<open>
  \<open>x.toFixed(2)\<close>: the nearest multiple of \<open>1/100\<close>, the larger one on a tie, printed
  with two decimals; a negative \<open>x\<close> prints as the sign and \<open>(-x).toFixed(2)\<close>.
\<close>

definition toFixed2 :: "real \<Rightarrow> string" where
  "toFixed2 x =
     (let n = nat \<lfloor>\<bar>x\<bar> * 100 + 1 / 2\<rfloor>;
          ds = show_nat n;
          ds = replicate (3 - length ds) CHR ''0'' @ ds
      in (if x < 0 then ''-'' else '''') @ take (length ds - 2) ds @ ''.'' @ drop (length ds - 2) ds)"

text \<open>White space and line terminators among the 8-bit characters.\<close>

definition is_space :: "char \<Rightarrow> bool" where
  "is_space c = ((of_char c :: nat) \<in> {9, 10, 11, 12, 13, 32, 160})"

definition strip_sign :: "string \<Rightarrow> bool \<times> string" where
  "strip_sign s =
     (case s of
        [] \<Rightarrow> (False, [])
      | c # r \<Rightarrow> if c = CHR ''-'' then (True, r) else if c = CHR ''+'' then (False, r) else (False, s))"

definition signed :: "bool \<Rightarrow> real \<Rightarrow> real" where
  "signed neg x = (if neg then - x else x)"

text \<open>
  \<open>parseInt(s, 10)\<close>: leading white space, an optional sign, then the longest run of
  decimal digits; \<open>NaN\<close> when there is no digit.
\<close>

definition parseInt :: "string \<Rightarrow> real option" where
  "parseInt s =
     (let (neg, u) = strip_sign (dropWhile is_space s);
          ds = takeWhile is_digit u
      in if ds = [] then None else Some (signed neg (real (digits_val ds))))"

text \<open>
  The exponent part of a decimal literal: \<open>e\<close> or \<open>E\<close>, an optional sign and at
  least one digit. Without one the exponent is 0 and nothing is consumed.
\<close>

definition parse_exp :: "string \<Rightarrow> int \<times> string" where
  "parse_exp s =
     (case s of
        [] \<Rightarrow> (0, [])
      | c # r \<Rightarrow>
          if c = CHR ''e'' \<or> c = CHR ''E'' then
            (let (neg, u) = strip_sign r; ds = takeWhile is_digit u
             in if ds = [] then (0, s)
                else ((if neg then - int (digits_val ds) else int (digits_val ds)),
                      dropWhile is_digit u))
          else (0, s))"

definition scale10 :: "real \<Rightarrow> int \<Rightarrow> real" where
  "scale10 m e = (if 0 \<le> e then m * 10 ^ nat e else m / 10 ^ nat (- e))"

text \<open>
  The longest prefix that is an unsigned decimal literal (digits, an optional
  fraction, an optional exponent), with what follows it. The literal \<open>Infinity\<close> has
  no value here.
\<close>

definition parse_decimal :: "string \<Rightarrow> (real \<times> string) option" where
  "parse_decimal s =
     (let ip = takeWhile is_digit s;
          r1 = dropWhile is_digit s;
          dot = (r1 \<noteq> [] \<and> hd r1 = CHR ''.'');
          fp = (if dot then takeWhile is_digit (tl r1) else []);
          r2 = (if dot then dropWhile is_digit (tl r1) else r1)
      in if ip = [] \<and> fp = [] then None
         else (let (e, r3) = parse_exp r2
               in Some (scale10 (real (digits_val ip) + real (digits_val fp) / 10 ^ length fp) e, r3)))"

text \<open>\<open>parseFloat\<close> of a string: leading white space, sign, longest decimal prefix.\<close>

definition parseFloat_str :: "string \<Rightarrow> real option" where
  "parseFloat_str s =
     (let (neg, u) = strip_sign (dropWhile is_space s)
      in case parse_decimal u of
           None \<Rightarrow> None
         | Some (x, _) \<Rightarrow> Some (signed neg x))"

text \<open>
  \<open>parseFloat(v)\<close> first converts \<open>v\<close> to a string. For a number the digits printed
  read back as the same number; \<open>undefined\<close>, \<open>null\<close>, \<open>true\<close> and \<open>false\<close>
  print as words that hold no number.
\<close>

fun parseFloat :: "jsval \<Rightarrow> real option" where
  "parseFloat (JNum x) = Some x"
| "parseFloat (JStr s) = parseFloat_str s"
| "parseFloat _ = None"

definition radix_digit :: "char \<Rightarrow> nat option" where
  "radix_digit c =
     (let n = (of_char c :: nat)
      in if 48 \<le> n \<and> n \<le> 57 then Some (n - 48)
         else if 97 \<le> n \<and> n \<le> 102 then Some (n - 87)
         else if 65 \<le> n \<and> n \<le> 70 then Some (n - 55)
         else None)"

definition radix_val :: "nat \<Rightarrow> string \<Rightarrow> real option" where
  "radix_val b ds =
     (if ds \<noteq> [] \<and> list_all (\<lambda>c. case radix_digit c of None \<Rightarrow> False | Some d \<Rightarrow> d < b) ds
      then Some (real (foldl (\<lambda>a c. b * a + (case radix_digit c of None \<Rightarrow> 0 | Some d \<Rightarrow> d)) 0 ds))
      else None)"

definition trim :: "string \<Rightarrow> string" where
  "trim s = rev (dropWhile is_space (rev (dropWhile is_space s)))"

text \<open>
  \<open>Number(s)\<close> for a string: white space is trimmed on both sides, the empty string
  is 0, a \<open>0x\<close>, \<open>0o\<close> or \<open>0b\<close> literal is read in its radix, and anything else must be
  a signed decimal literal with nothing after it.
\<close>

definition StringToNumber :: "string \<Rightarrow> real option" where
  "StringToNumber s =
     (let t = trim s
      in if t = [] then Some 0
         else if startsWith t ''0x'' \<or> startsWith t ''0X'' then radix_val 16 (drop 2 t)
         else if startsWith t ''0o'' \<or> startsWith t ''0O'' then radix_val 8 (drop 2 t)
         else if startsWith t ''0b'' \<or> startsWith t ''0B'' then radix_val 2 (drop 2 t)
         else (let (neg, u) = strip_sign t
               in case parse_decimal u of
                    None \<Rightarrow> None
                  | Some (x, rest) \<Rightarrow> if rest = [] then Some (signed neg x) else None))"

fun Number :: "jsval \<Rightarrow> real option" where
  "Number JUndef = None"
| "Number JNull = Some 0"
| "Number (JBool b) = Some (if b then 1 else 0)"
| "Number (JNum x) = Some x"
| "Number (JStr s) = StringToNumber s"

text \<open>\<open>x || 0\<close> for a number \<open>x\<close>: \<open>NaN\<close> and 0 give 0.\<close>

fun or0 :: "real option \<Rightarrow> real" where
  "or0 None = 0"
| "or0 (Some x) = x"

text \<open>
  The relational operator \<open><\<close>: two strings compare by code units, anything else
  through numeric coercion, and a comparison with \<open>NaN\<close> is false.
\<close>

fun js_lt :: "jsval \<Rightarrow> jsval \<Rightarrow> bool" where
  "js_lt (JStr a) (JStr b) = (a < b)"
| "js_lt a b = (case (Number a, Number b) of (Some x, Some y) \<Rightarrow> x < y | _ \<Rightarrow> False)"

text \<open>The remainder operator \<open>%\<close>: the quotient is truncated towards zero.\<close>

definition js_trunc :: "real \<Rightarrow> int" where
  "js_trunc x = (if 0 \<le> x then \<lfloor>x\<rfloor> else \<lceil>x\<rceil>)"

definition js_rem :: "real \<Rightarrow> real \<Rightarrow> real" where
  "js_rem a b = a - b * of_int (js_trunc (a / b))"

text \<open>\<open>s.padStart(2, "0")\<close>.\<close>

definition padStart2 :: "string \<Rightarrow> string" where
  "padStart2 s = replicate (2 - length s) CHR ''0'' @ s"

section \<open>Arrays\<close>

text \<open>\<open>[...new Set(xs)]\<close>: the distinct values, each at its first occurrence.\<close>

definition uniq :: "'a list \<Rightarrow> 'a list" where
  "uniq xs = fold (\<lambda>x acc. if x \<in> set acc then acc else acc @ [x]) xs []"

text \<open>
  \<open>Array.prototype.sort\<close> with a comparator: a stable sort. For a comparator that is
  a consistent ordering every stable sort gives the same array; insertion sort is the
  one written here. With an inconsistent comparator the order is left to the
  implementation.
\<close>

fun insort_cmp :: "('a \<Rightarrow> 'a \<Rightarrow> int) \<Rightarrow> 'a \<Rightarrow> 'a list \<Rightarrow> 'a list" where
  "insort_cmp cmp x [] = [x]"
| "insort_cmp cmp x (y # ys) = (if cmp x y \<le> 0 then x # y # ys else y # insort_cmp cmp x ys)"

definition js_sort :: "('a \<Rightarrow> 'a \<Rightarrow> int) \<Rightarrow> 'a list \<Rightarrow> 'a list" where
  "js_sort cmp xs = foldr (insort_cmp cmp) xs []"

text \<open>
  The position of a value in an array, \<open>None\<close> when it is absent.
\<close>

fun index_of :: "'a list \<Rightarrow> 'a \<Rightarrow> nat option" where
  "index_of [] x = None"
| "index_of (y # ys) x = (if y = x then Some 0 else map_option Suc (index_of ys x))"

section \<open>Sheet names\<close>

text \<open>
  \<open>cleanSheetName\<close> (lines 12-19) and the collision loop of
  \<open>processDirectoryToWorkbook\<close> (lines 566-574).
\<close>

definition MAX_SHEET_NAME_LENGTH :: nat where
  "MAX_SHEET_NAME_LENGTH = 31"

text \<open>The characters of the class \<open>[:\\/?*\[\]]\<close>, by code.\<close>

definition forbidden_char :: "char \<Rightarrow> bool" where
  "forbidden_char c = ((of_char c :: nat) \<in> {58, 92, 47, 63, 42, 91, 93})"

definition cleanSheetName :: "string \<Rightarrow> string" where
  "cleanSheetName name =
     (let clean = strip_json name;
          clean = map (\<lambda>c. if forbidden_char c then CHR ''_'' else c) clean
      in if MAX_SHEET_NAME_LENGTH < length clean then take MAX_SHEET_NAME_LENGTH clean else clean)"

text \<open>
  The collision loop of \<open>processDirectoryToWorkbook\<close>: while the candidate is
  among the workbook's sheet names, the next candidate is the first
  \<open>MAX_SHEET_NAME_LENGTH - 3\<close> characters of the cleaned name, an underscore and the
  counter. The loop state is the candidate and the counter; \<open>names\<close> is
  \<open>workbook.SheetNames\<close>. It terminates because distinct counters give distinct
  candidates and the workbook holds finitely many names.
\<close>

definition suffixed :: "string \<Rightarrow> nat \<Rightarrow> string" where
  "suffixed sheetName counter = take (MAX_SHEET_NAME_LENGTH - 3) sheetName @ ''_'' @ show_nat counter"

function nameLoop :: "string list \<Rightarrow> string \<Rightarrow> string \<Rightarrow> nat \<Rightarrow> string" where
  "nameLoop names sheetName finalSheetName counter =
     (if finalSheetName \<in> set names
      then nameLoop names sheetName (suffixed sheetName counter) (counter + 1)
      else finalSheetName)"
  by pat_completeness auto

definition uniqueSheetName :: "string list \<Rightarrow> string \<Rightarrow> string" where
  "uniqueSheetName names sheetName = nameLoop names sheetName sheetName 1"

text \<open>
  The names handed to \<open>book_append_sheet\<close>, one per file in directory order, when
  every file holds a non-empty array and the library accepts each name.
\<close>

fun assignSheetNames :: "string list \<Rightarrow> string list \<Rightarrow> string list" where
  "assignSheetNames names [] = names"
| "assignSheetNames names (f # fs) =
     assignSheetNames (names @ [uniqueSheetName names (cleanSheetName f)]) fs"

section \<open>Duration codec\<close>

text \<open>
  \<open>parseDuration\<close> (lines 22-35) and \<open>formatDuration\<close> (lines 38-47).
\<close>

definition parseDuration :: "jsval \<Rightarrow> real" where
  "parseDuration durationStr =
     (case durationStr of
        JStr s \<Rightarrow>
          if s = [] then 0
          else (let parts = split CHR '':'' s
                in if length parts < 2 then 0
                   else (let hours = or0 (parseInt (parts ! 0));
                             minutes = or0 (parseInt (parts ! 1));
                             seconds = or0 (if 2 < length parts then parseFloat_str (parts ! 2) else None)
                         in hours * 3600 + minutes * 60 + seconds))
      | _ \<Rightarrow> 0)"

definition formatDuration :: "real \<Rightarrow> string" where
  "formatDuration totalSeconds =
     (let hours = \<lfloor>totalSeconds / 3600\<rfloor>;
          remainder = js_rem totalSeconds 3600;
          minutes = \<lfloor>remainder / 60\<rfloor>;
          seconds = \<lfloor>js_rem remainder 60\<rfloor>
      in show_int hours @ '':'' @ padStart2 (show_int minutes) @ '':'' @ padStart2 (show_int seconds))"

section \<open>Aggregation\<close>

text \<open>
  \<open>aggregateData\<close> (lines 51-114) with \<open>processGenericCounts\<close>,
  \<open>processGlitches\<close> and \<open>processTicketsGeneral\<close> (lines 116-192).
\<close>

text \<open>
  One column of the Generic Counts strategy (the body of the loop over the keys): the
  sum when every row's value coerces to a number, the empty string otherwise.
\<close>

definition genericColumn :: "row list \<Rightarrow> string \<Rightarrow> jsval" where
  "genericColumn rows key =
     (let isNumeric = list_all (\<lambda>r. Number (get r key) \<noteq> None) rows
      in if isNumeric then JNum (foldl (\<lambda>acc r. acc + or0 (Number (get r key))) 0 rows)
         else JStr [])"

text \<open>
  \<open>processGenericCounts\<close> reads the keys of \<open>rows[0]\<close>; on an empty array that read
  throws.
\<close>

fun processGenericCounts :: "row \<Rightarrow> row list \<Rightarrow> error + row" where
  "processGenericCounts summaryRow [] = Inl TypeError"
| "processGenericCounts summaryRow (r0 # rs) =
     Inr (fold (\<lambda>key acc. if key = ''Mes_Anio'' \<or> key = ''Nombre_Unidad'' then acc
                          else put acc key (genericColumn (r0 # rs) key))
            (keys r0) summaryRow)"

definition processGlitches :: "row \<Rightarrow> row list \<Rightarrow> error + row" where
  "processGlitches summaryRow rows = processGenericCounts summaryRow rows"

text \<open>
  The Tickets-General strategy. The three sums are the two \<open>reduce\<close> calls and
  the \<open>for\<close> loop of the function; \<open>cantidad\<close> is the value stored under
  \<open>Cantidad_Tickets\<close>, which the program reads back from the summary row.
\<close>

definition ticketCount :: "row list \<Rightarrow> real" where
  "ticketCount rows = foldl (\<lambda>acc r. acc + or0 (Number (get r ''Cantidad_Tickets''))) 0 rows"

definition totalTimeProdSec :: "row list \<Rightarrow> real" where
  "totalTimeProdSec rows =
     foldl (\<lambda>acc r. acc + parseDuration (get r ''Total_Tiempo_Productivo'')) 0 rows"

definition totalEstSec :: "row list \<Rightarrow> real" where
  "totalEstSec rows =
     foldl (\<lambda>acc r. acc + parseDuration (get r ''Promedio_Tiempo_Estimado'')
                             * or0 (Number (get r ''Cantidad_Tickets''))) 0 rows"

definition processTicketsGeneral :: "row \<Rightarrow> row list \<Rightarrow> row" where
  "processTicketsGeneral summaryRow rows =
     (let cantidad = ticketCount rows;
          s1 = put summaryRow ''Cantidad_Tickets'' (JNum cantidad);
          s2 = put s1 ''Total_Tiempo_Productivo'' (JStr (formatDuration (totalTimeProdSec rows)));
          s3 = (if 0 < cantidad
                then put s2 ''Promedio_Tiempo_Productivo''
                       (JStr (formatDuration (totalTimeProdSec rows / cantidad)))
                else put s2 ''Promedio_Tiempo_Productivo'' (JStr ''0:00:00''))
      in if 0 < cantidad
         then (let s4 = put s3 ''Promedio_Tiempo_Estimado''
                          (JStr (formatDuration (totalEstSec rows / cantidad)))
               in if 0 < totalTimeProdSec rows
                  then put s4 ''Porcentaje_Cumplimiento''
                         (JStr (toFixed2 (totalEstSec rows / totalTimeProdSec rows * 100)))
                  else put s4 ''Porcentaje_Cumplimiento'' (JStr ''0.00''))
         else put (put s3 ''Promedio_Tiempo_Estimado'' (JStr ''0:00:00''))
                ''Porcentaje_Cumplimiento'' (JStr ''0.00''))"

text \<open>The report name that selects the rule: extension stripped, upper-cased.\<close>

definition report_name :: "string \<Rightarrow> string" where
  "report_name filename = toUpperCase (strip_json filename)"

text \<open>The rule cascade inside the loop over the groups.\<close>

definition dispatch :: "string \<Rightarrow> row \<Rightarrow> row list \<Rightarrow> error + row" where
  "dispatch name summaryRow rows =
     (if includes_str name ''MANTENIMIENTO'' \<or> includes_str name ''TECNOLOGIA''
         \<or> includes_str name ''LOST_AND_FOUND''
      then processGenericCounts summaryRow rows
      else if includes_str name ''GLITCHES'' then processGlitches summaryRow rows
      else if name = ''TICKETS_GENERAL'' \<or> name = ''DATOS_GENERALES_UNIDAD_DEPARTAMENTO''
              \<or> startsWith name ''DATOS_GENERALES''
      then Inr (processTicketsGeneral summaryRow rows)
      else if name = ''ETIQUETAS_UNIDAD_DEPARTAMENTO'' then processGenericCounts summaryRow rows
      else processGenericCounts summaryRow rows)"

text \<open>
  Grouping. \<open>groups\<close> is a plain object keyed by the unit converted to a string, in
  insertion order; \<open>unit_key\<close> is \<open>row["Nombre_Unidad"] || "N/A"\<close> as a property key.
  A key that names a property of \<open>Object.prototype\<close> finds the inherited value, which
  is truthy and has no \<open>rows\<close>, so the \<open>push\<close> throws. The \<open>count\<close> field is written
  and never read; it is left out.
\<close>

definition unit_key :: "jsval \<Rightarrow> string" where
  "unit_key v = js_to_string (if truthy v then v else JStr ''N/A'')"

definition object_prototype_names :: "string list" where
  "object_prototype_names =
     [''constructor'', ''__defineGetter__'', ''__defineSetter__'', ''hasOwnProperty'',
      ''__lookupGetter__'', ''__lookupSetter__'', ''isPrototypeOf'', ''propertyIsEnumerable'',
      ''toString'', ''valueOf'', ''__proto__'', ''toLocaleString'']"

fun add_to_group :: "(string \<times> row list) list \<Rightarrow> string \<Rightarrow> row \<Rightarrow> (string \<times> row list) list" where
  "add_to_group [] k r = [(k, [r])]"
| "add_to_group (g # gs) k r =
     (if fst g = k then (k, snd g @ [r]) # gs else g # add_to_group gs k r)"

fun groupRows :: "row list \<Rightarrow> (string \<times> row list) list \<Rightarrow> error + (string \<times> row list) list" where
  "groupRows [] groups = Inr groups"
| "groupRows (row # rest) groups =
     (let unit = unit_key (get row ''Nombre_Unidad'')
      in if unit \<in> set object_prototype_names then Inl TypeError
         else groupRows rest (add_to_group groups unit row))"

text \<open>
  \<open>Object.entries\<close>: keys that are array indices come first in ascending numeric
  order, the other keys follow in insertion order.
\<close>

definition index_key :: "string \<Rightarrow> bool" where
  "index_key k = (k \<noteq> [] \<and> list_all is_digit k \<and> (k = ''0'' \<or> hd k \<noteq> CHR ''0'')
                  \<and> digits_val k < 4294967295)"

definition entries :: "(string \<times> 'a) list \<Rightarrow> (string \<times> 'a) list" where
  "entries obj = sort_key (\<lambda>g. digits_val (fst g)) (filter (\<lambda>g. index_key (fst g)) obj)
                 @ filter (\<lambda>g. \<not> index_key (fst g)) obj"

text \<open>
  The loop over the groups: the group of the key \<open>N/A\<close> is skipped, every other
  group gives one summary row.
\<close>

fun accumulate :: "string \<Rightarrow> (string \<times> row list) list \<Rightarrow> error + row list" where
  "accumulate name [] = Inr []"
| "accumulate name (g # rest) =
     (if fst g = ''N/A'' then accumulate name rest
      else (case dispatch name [(''Mes_Anio'', JStr ''Acumulado 2025''), (''Nombre_Unidad'', JStr (fst g))] (snd g) of
              Inl e \<Rightarrow> Inl e
            | Inr summaryRow \<Rightarrow>
                (case accumulate name rest of
                   Inl e \<Rightarrow> Inl e
                 | Inr aggregatedRows \<Rightarrow> Inr (summaryRow # aggregatedRows))))"

definition aggregateData :: "string \<Rightarrow> row list \<Rightarrow> error + row list" where
  "aggregateData filename data =
     (if data = [] then Inr []
      else (case groupRows data [] of
              Inl e \<Rightarrow> Inl e
            | Inr groups \<Rightarrow> accumulate (report_name filename) (entries groups)))"

section \<open>Filling missing months\<close>

text \<open>
  \<open>fillMissingMonths\<close> (lines 196-304).
\<close>

definition MONTHS_2025 :: "string list" where
  "MONTHS_2025 =
     [''Enero 2025'', ''Febrero 2025'', ''Marzo 2025'', ''Abril 2025'', ''Mayo 2025'',
      ''Junio 2025'', ''Julio 2025'', ''Agosto 2025'', ''Septiembre 2025'', ''Octubre 2025'',
      ''Noviembre 2025'', ''Diciembre 2025'']"

text \<open>The value a synthesized row gets under \<open>key\<close>: the branches of the inner loop.\<close>

definition zeroValue :: "string \<Rightarrow> jsval \<Rightarrow> string \<Rightarrow> jsval" where
  "zeroValue month unit key =
     (if key = ''Mes_Anio'' then JStr month
      else if key = ''Nombre_Unidad'' then unit
      else if startsWith key ''Cantidad'' \<or> startsWith key ''Total_Tickets''
              \<or> key = ''insertId'' \<or> key = ''affectedRows'' then JNum 0
      else if includes_str key ''Tiempo'' then JStr ''00:00:00''
      else if includes_str key ''Porcentaje'' then JStr ''0.00''
      else JNum 0)"

definition zeroRow :: "string list \<Rightarrow> string \<Rightarrow> jsval \<Rightarrow> row" where
  "zeroRow ks month unit = fold (\<lambda>key acc. put acc key (zeroValue month unit key)) ks []"

text \<open>
  The rows pushed for one unit: for each month of the calendar either the first
  existing row of the unit with that month (a row object is always truthy) or a
  synthesized one.
\<close>

definition unitBlock :: "row list \<Rightarrow> string list \<Rightarrow> jsval \<Rightarrow> row list" where
  "unitBlock data ks unit =
     (let unitRows = filter (\<lambda>r. get r ''Nombre_Unidad'' = unit) data;
          unitMonths = uniq (map (\<lambda>r. get r ''Mes_Anio'') unitRows)
      in concat (map (\<lambda>month.
           if JStr month \<in> set unitMonths
           then (case find (\<lambda>r. get r ''Mes_Anio'' = JStr month) unitRows of
                   Some existing \<Rightarrow> [existing]
                 | None \<Rightarrow> [])
           else [zeroRow ks month unit]) MONTHS_2025))"

text \<open>
  \<open>monthIndex[v]\<close>: the position of the label in the calendar, \<open>None\<close> for
  \<open>undefined\<close>. (Labels that name a property of \<open>Object.prototype\<close> are not
  modelled; the rows that are sorted always carry calendar labels.)
\<close>

definition monthIndex :: "jsval \<Rightarrow> nat option" where
  "monthIndex v = index_of MONTHS_2025 (js_to_string v)"

text \<open>The comparator; a \<open>NaN\<close> result counts as 0 for the sort.\<close>

definition compareRows :: "row \<Rightarrow> row \<Rightarrow> int" where
  "compareRows a b =
     (let ma = monthIndex (get a ''Mes_Anio''); mb = monthIndex (get b ''Mes_Anio'')
      in if ma \<noteq> mb then (case (ma, mb) of (Some i, Some j) \<Rightarrow> int i - int j | _ \<Rightarrow> 0)
         else if js_lt (get a ''Nombre_Unidad'') (get b ''Nombre_Unidad'') then - 1
         else if js_lt (get b ''Nombre_Unidad'') (get a ''Nombre_Unidad'') then 1
         else 0)"

definition fillMissingMonths :: "row list \<Rightarrow> row list" where
  "fillMissingMonths data =
     (if data = [] then data
      else if \<not> hasOwnProperty (hd data) ''Mes_Anio'' \<or> \<not> hasOwnProperty (hd data) ''Nombre_Unidad''
      then data
      else (let units = uniq (map (\<lambda>r. get r ''Nombre_Unidad'') data);
                filledData = concat (map (unitBlock data (keys (hd data))) units)
            in js_sort compareRows filledData))"

section \<open>Pivot tables\<close>







section \<open>The words of the claims\<close>

text \<open>
  Definitions that follow the specification rather than the program: they state what a
  claim promises, and the theorems compare them with the definitions above.
\<close>






text \<open>Removing the group of the key \<open>N/A\<close> from a list of groups.\<close>

definition drop_na :: "(string \<times> 'a) list \<Rightarrow> (string \<times> 'a) list" where
  "drop_na gs = filter (\<lambda>g. fst g \<noteq> ''N/A'') gs"

text \<open>The period and unit of a row, as a pair.\<close>

definition period_unit :: "row \<Rightarrow> jsval \<times> jsval" where
  "period_unit r = (get r ''Mes_Anio'', get r ''Nombre_Unidad'')"

text \<open>
  The words of the claims about the gap filler: when it is active, the order of the
  result (by position of the period in the calendar, then by the unit as text), and
  the default of a column by its name.
\<close>

definition gap_filling_active :: "row list \<Rightarrow> bool" where
  "gap_filling_active data =
     (data \<noteq> [] \<and> hasOwnProperty (hd data) ''Mes_Anio'' \<and> hasOwnProperty (hd data) ''Nombre_Unidad'')"









text \<open>A cell on which \<open>Number\<close> and \<open>parseFloat\<close> agree when the number is positive.\<close>

definition plain_cell :: "jsval \<Rightarrow> bool" where
  "plain_cell v = (case Number v of Some x \<Rightarrow> (if 0 < x then parseFloat v = Some x else True) | None \<Rightarrow> True)"


section \<open>Example inputs\<close>


text \<open>
  A report with a unit named \<open>N/A\<close>, a named unit and a row without a unit.
\<close>

definition na_data :: "row list" where
  "na_data =
     [[(''Mes_Anio'', JStr ''Enero 2025''), (''Nombre_Unidad'', JStr ''N/A''), (''Total'', JNum 5)],
      [(''Mes_Anio'', JStr ''Enero 2025''), (''Nombre_Unidad'', JStr ''Pierre''), (''Total'', JNum 2)],
      [(''Mes_Anio'', JStr ''Enero 2025''), (''Total'', JNum 7)]]"



text \<open>A report whose only row carries a label of the previous year.\<close>

definition old_label :: "row list" where
  "old_label =
     [[(''Mes_Anio'', JStr ''Diciembre 2024''), (''Nombre_Unidad'', JStr ''Pierre Mundo Imperial''),
       (''Cantidad_Tickets'', JNum 8)]]"



section \<open>Facts about digits and parsing\<close>

lemma of_char_digit_char: "d < 10 \<Longrightarrow> (of_char (digit_char d) :: nat) = 48 + d"
  by (simp add: digit_char_def)

lemma is_digit_digit_char: "d < 10 \<Longrightarrow> is_digit (digit_char d)"
  by (simp add: is_digit_def of_char_digit_char)

lemma digit_val_digit_char: "d < 10 \<Longrightarrow> digit_val (digit_char d) = d"
  by (simp add: digit_val_def of_char_digit_char)


lemma show_nat_digits: "\<forall>c \<in> set (show_nat n). is_digit c"
proof (induction n rule: show_nat.induct)
  case (1 n)
  show ?case
  proof (cases "n < 10")
    case True
    then show ?thesis by (subst show_nat.simps) (simp add: is_digit_digit_char)
  next
    case False
    with 1 show ?thesis by (subst show_nat.simps) (simp add: is_digit_digit_char)
  qed
qed

lemma show_nat_nonempty: "show_nat n \<noteq> []"
  by (subst show_nat.simps) simp

lemma digits_val_snoc: "digits_val (ds @ [c]) = 10 * digits_val ds + digit_val c"
  by (simp add: digits_val_def)

lemma digits_val_show_nat: "digits_val (show_nat n) = n"
proof (induction n rule: show_nat.induct)
  case (1 n)
  show ?case
  proof (cases "n < 10")
    case True
    then show ?thesis
      by (subst show_nat.simps) (simp add: digits_val_def digit_val_digit_char)
  next
    case False
    with 1 show ?thesis
      by (subst show_nat.simps) (simp add: digits_val_snoc digit_val_digit_char)
  qed
qed







lemma split_no_sep: "d \<notin> set a \<Longrightarrow> split d a = [a]"
  by (induction a) auto



lemma digit_char_simps:
  "digit_char 0 = CHR ''0''" "digit_char 1 = CHR ''1''" "digit_char 2 = CHR ''2''"
  "digit_char 3 = CHR ''3''" "digit_char 4 = CHR ''4''" "digit_char 5 = CHR ''5''"
  "digit_char 6 = CHR ''6''" "digit_char 7 = CHR ''7''" "digit_char 8 = CHR ''8''"
  "digit_char 9 = CHR ''9''" "digit_char (Suc 0) = CHR ''1''"
  by code_simp+

section \<open>The duration codec\<close>












text \<open>
  Malformed duration input is zero seconds: a value that is not a text, the empty text
  and a text without a colon all parse to 0.
\<close>

theorem parseDuration_malformed:
  "parseDuration JUndef = 0 \<and> parseDuration JNull = 0 \<and> parseDuration (JBool b) = 0
   \<and> parseDuration (JNum x) = 0 \<and> parseDuration (JStr []) = 0
   \<and> (CHR '':'' \<notin> set s \<longrightarrow> parseDuration (JStr s) = 0)"
  by (simp add: parseDuration_def split_no_sep)

theorem parseDuration_malformed_witness:
  "CHR '':'' \<notin> set ''90 min'' \<and> parseDuration (JStr ''90 min'') = 0"
  using parseDuration_malformed[of True 0 "''90 min''"] by simp

section \<open>Sheet name collisions\<close>

lemma show_nat_inject: "show_nat m = show_nat n \<Longrightarrow> m = n"
  using digits_val_show_nat by metis

lemma suffixed_inject: "suffixed b m = suffixed b n \<Longrightarrow> m = n"
  by (simp add: suffixed_def show_nat_inject)

lemma finite_taken: "finite {k. c \<le> k \<and> suffixed b k \<in> set names}"
proof -
  have "inj_on (suffixed b) {k. c \<le> k \<and> suffixed b k \<in> set names}"
    by (rule inj_onI) (rule suffixed_inject)
  moreover have "suffixed b ` {k. c \<le> k \<and> suffixed b k \<in> set names} \<subseteq> set names" by auto
  ultimately show ?thesis using finite_subset finite_imageD by (metis List.finite_set)
qed

termination nameLoop
proof (relation "measure (\<lambda>(names, b, final, c).
         card {k. c \<le> k \<and> suffixed b k \<in> set names} + (if final \<in> set names then 1 else 0))")
  show "wf (measure (\<lambda>(names, b, final, c).
         card {k. c \<le> k \<and> suffixed b k \<in> set names} + (if final \<in> set names then 1 else 0)))"
    by simp
next
  fix names :: "string list" and sheetName finalSheetName :: string and counter :: nat
  assume inn: "finalSheetName \<in> set names"
  let ?A = "{k. counter \<le> k \<and> suffixed sheetName k \<in> set names}"
  let ?B = "{k. counter + 1 \<le> k \<and> suffixed sheetName k \<in> set names}"
  have fin: "finite ?A" by (rule finite_taken)
  have "card ?B + (if suffixed sheetName counter \<in> set names then 1 else 0) = card ?A"
  proof (cases "suffixed sheetName counter \<in> set names")
    case True
    have "?A = insert counter ?B" using True by (auto simp: le_eq_less_or_eq)
    moreover have "counter \<notin> ?B" by simp
    moreover have "finite ?B" using finite_taken[of "counter + 1"] by simp
    ultimately show ?thesis using True by simp
  next
    case False
    have "?A = ?B" using False by (auto simp: le_eq_less_or_eq Suc_le_eq)
    then show ?thesis using False by simp
  qed
  then show "((names, sheetName, suffixed sheetName counter, counter + 1),
              (names, sheetName, finalSheetName, counter)) \<in> measure (\<lambda>(names, b, final, c).
         card {k. c \<le> k \<and> suffixed b k \<in> set names} + (if final \<in> set names then 1 else 0))"
    using inn by simp
qed

declare nameLoop.simps [simp del]

lemma nameLoop_run:
  assumes "\<forall>k. c \<le> k \<and> k < n \<longrightarrow> suffixed b k \<in> set names"
    and "suffixed b n \<notin> set names" and "c \<le> n" and "final \<in> set names"
  shows "nameLoop names b final c = suffixed b n"
  using assms
proof (induction "n - c" arbitrary: c final)
  case 0
  then have "c = n" by simp
  with 0 show ?case by (simp add: nameLoop.simps[of names b final] nameLoop.simps[of names b "suffixed b n"])
next
  case (Suc d)
  then have lt: "c < n" by simp
  with Suc.prems have inn: "suffixed b c \<in> set names" by simp
  have "nameLoop names b (suffixed b c) (c + 1) = suffixed b n"
    using Suc.hyps(1)[of "c + 1" "suffixed b c"] Suc.hyps(2) Suc.prems lt inn by simp
  then show ?case using Suc.prems(4) by (simp add: nameLoop.simps[of names b final])
qed

lemma suffixed_length_small: "k < 100 \<Longrightarrow> length (suffixed b k) \<le> MAX_SHEET_NAME_LENGTH"
proof -
  assume k: "k < 100"
  have "length (show_nat k) \<le> 2"
  proof (cases "k < 10")
    case True
    then show ?thesis by (subst show_nat.simps) simp
  next
    case False
    with k have "k div 10 < 10" by simp
    then have "show_nat (k div 10) = [digit_char (k div 10)]" by (subst show_nat.simps) simp
    with False show ?thesis by (subst show_nat.simps) simp
  qed
  then show ?thesis by (simp add: suffixed_def MAX_SHEET_NAME_LENGTH_def)
qed

lemma uniqueSheetName_taken:
  assumes "\<forall>k. 1 \<le> k \<and> k < n \<longrightarrow> suffixed b k \<in> set names"
    and "suffixed b n \<notin> set names" and "1 \<le> n" and "b \<in> set names"
  shows "uniqueSheetName names b = suffixed b n"
  unfolding uniqueSheetName_def using assms by (rule nameLoop_run)

lemma uniqueSheetName_free: "b \<notin> set names \<Longrightarrow> uniqueSheetName names b = b"
  by (simp add: uniqueSheetName_def nameLoop.simps[of names b b])

lemma assignSheetNames_same:
  assumes "\<forall>f \<in> set fs. cleanSheetName f = b" and "\<forall>k. suffixed b k \<noteq> b" and "1 \<le> n"
  shows "assignSheetNames (b # map (suffixed b) [1..<n]) fs = b # map (suffixed b) [1..<n + length fs]"
  using assms
proof (induction fs arbitrary: n)
  case Nil
  then show ?case by simp
next
  case (Cons f fs)
  have notin: "suffixed b n \<notin> set (b # map (suffixed b) [1..<n])"
    using Cons.prems(2) suffixed_inject[of b n] by auto
  have "uniqueSheetName (b # map (suffixed b) [1..<n]) b = suffixed b n"
    by (rule uniqueSheetName_taken[OF _ notin Cons.prems(3)]) auto
  moreover have "cleanSheetName f = b" using Cons.prems(1) by simp
  moreover have "(b # map (suffixed b) [1..<n]) @ [suffixed b n] = b # map (suffixed b) [1..<Suc n]"
    using Cons.prems(3) by simp
  ultimately have "assignSheetNames (b # map (suffixed b) [1..<n]) (f # fs)
      = assignSheetNames (b # map (suffixed b) [1..<Suc n]) fs"
    by simp
  also have "\<dots> = b # map (suffixed b) [1..<Suc n + length fs]"
    using Cons.IH[of "Suc n"] Cons.prems by simp
  finally show ?case by simp
qed

lemma assignSheetNames_first:
  assumes "\<forall>f \<in> set (f0 # fs). cleanSheetName f = b" and "\<forall>k. suffixed b k \<noteq> b"
  shows "assignSheetNames [] (f0 # fs) = b # map (suffixed b) [1..<1 + length fs]"
  using assignSheetNames_same[of fs b 1] assms by (simp add: uniqueSheetName_free)

lemma cleanSheetName_long:
  assumes "length b = 31" and "\<forall>c \<in> set b. \<not> forbidden_char c"
  shows "cleanSheetName (b @ t @ ''.json'') = b"
proof -
  have "strip_json (b @ t @ ''.json'') = b @ t"
    by (simp add: strip_json_def lower_ascii_def)
  moreover have "map (\<lambda>c. if forbidden_char c then CHR ''_'' else c) b = b"
    using assms(2) by (induction b) auto
  ultimately show ?thesis using assms(1)
    by (simp add: cleanSheetName_def MAX_SHEET_NAME_LENGTH_def Let_def)
qed

lemma assignSheetNames_run:
  assumes "\<And>k. cleanSheetName (file k) = b" and "\<And>k. suffixed b k \<noteq> b"
  shows "assignSheetNames [] (map file [1..<Suc (Suc n)]) = b # map (suffixed b) [1..<Suc n]"
proof -
  have "[1..<Suc (Suc n)] = 1 # [Suc 1..<Suc (Suc n)]"
    by (rule upt_conv_Cons) simp
  then have split: "map file [1..<Suc (Suc n)] = file 1 # map file [Suc 1..<Suc (Suc n)]"
    by (simp only: list.map)
  have len: "1 + length (map file [Suc 1..<Suc (Suc n)]) = Suc n"
    by (simp del: upt_Suc)
  have "assignSheetNames [] (file 1 # map file [Suc 1..<Suc (Suc n)])
      = b # map (suffixed b) [1..<1 + length (map file [Suc 1..<Suc (Suc n)])]"
    by (rule assignSheetNames_first) (use assms in auto)
  then show ?thesis unfolding split len .
qed

text \<open>
  Claim C8. The second and later occurrences of a cleaned name get the suffixes
  \<open>_1\<close>, \<open>_2\<close>, ... after the first 28 characters, and the claim says that no
  produced name exceeds 31 characters. The truncation leaves room for three
  characters only: with counters below 100 the bound holds
  (\<open>suffixed_length_small\<close>), but the 101st file whose cleaned name is the same
  31-character text gets the suffix \<open>_100\<close> and a name of 32 characters.
\<close>

theorem sheet_name_overflow:
  "assignSheetNames []
      (map (\<lambda>k. ''DATOS_GENERALES_UNIDAD_DEPARTAMENTO_'' @ show_nat k @ ''.json'') [1..<102]) ! 100
     = ''DATOS_GENERALES_UNIDAD_DEPAR_100''
   \<and> length ''DATOS_GENERALES_UNIDAD_DEPAR_100'' = 32
   \<and> MAX_SHEET_NAME_LENGTH = 31"
proof -
  let ?b = "''DATOS_GENERALES_UNIDAD_DEPARTAM''"
  let ?file = "\<lambda>k. ''DATOS_GENERALES_UNIDAD_DEPARTAMENTO_'' @ show_nat k @ ''.json''"
  have clean: "cleanSheetName (?file k) = ?b" for k
    using cleanSheetName_long[of ?b "''ENTO_'' @ show_nat k"] by (simp add: forbidden_char_def)
  have neq: "suffixed ?b k \<noteq> ?b" for k
    by (simp add: suffixed_def MAX_SHEET_NAME_LENGTH_def)
  have "assignSheetNames [] (map ?file [1..<Suc (Suc 100)]) = ?b # map (suffixed ?b) [1..<Suc 100]"
    using clean neq by (rule assignSheetNames_run)
  moreover have "Suc (Suc 100) = 102" by simp
  ultimately have run: "assignSheetNames [] (map ?file [1..<102]) = ?b # map (suffixed ?b) [1..<Suc 100]"
    by (simp only:)
  have "(?b # map (suffixed ?b) [1..<Suc 100]) ! 100 = suffixed ?b 100"
    by (simp add: nth_Cons' del: upt_rec_numeral upt_Suc)
  moreover have "suffixed ?b 100 = ''DATOS_GENERALES_UNIDAD_DEPAR_100''"
    by (simp add: suffixed_def MAX_SHEET_NAME_LENGTH_def show_nat.simps digit_char_simps)
  ultimately show ?thesis unfolding run by (simp add: MAX_SHEET_NAME_LENGTH_def del: upt_rec_numeral upt_Suc)
qed

text \<open>
  The collision loop while the counter stays below 100: when the cleaned name and the
  candidates with the suffixes \<open>_1\<close> ... \<open>_(n-1)\<close> are sheets of the workbook and
  the candidate with \<open>_n\<close> is not, the loop returns that candidate, and for
  \<open>n < 100\<close> it has at most 31 characters. A name that is not yet a sheet is kept as
  it is.
\<close>

theorem sheet_name_small_counters:
  assumes "sheetName \<in> set names"
    and "\<forall>k. 1 \<le> k \<and> k < n \<longrightarrow> suffixed sheetName k \<in> set names"
    and "suffixed sheetName n \<notin> set names" and "1 \<le> n"
  shows "uniqueSheetName names sheetName = take 28 sheetName @ ''_'' @ show_nat n
    \<and> (n < 100 \<longrightarrow> length (uniqueSheetName names sheetName) \<le> 31)
    \<and> (other \<notin> set names \<longrightarrow> uniqueSheetName names other = other)"
proof -
  have u: "uniqueSheetName names sheetName = suffixed sheetName n"
    by (rule uniqueSheetName_taken[OF assms(2,3,4,1)])
  then show ?thesis
    using suffixed_length_small[of n sheetName] uniqueSheetName_free[of other names]
    by (simp add: suffixed_def MAX_SHEET_NAME_LENGTH_def)
qed

theorem sheet_name_small_counters_witness:
  "''Tickets'' \<in> set [''Tickets'', ''Tickets_1'']
   \<and> uniqueSheetName [''Tickets'', ''Tickets_1''] ''Tickets'' = ''Tickets_2''
   \<and> length (uniqueSheetName [''Tickets'', ''Tickets_1''] ''Tickets'') \<le> 31
   \<and> uniqueSheetName [''Tickets'', ''Tickets_1''] ''Tags'' = ''Tags''"
proof -
  have s1: "suffixed ''Tickets'' 1 = ''Tickets_1''" "suffixed ''Tickets'' 2 = ''Tickets_2''"
    by (simp_all add: suffixed_def MAX_SHEET_NAME_LENGTH_def show_nat.simps digit_char_simps)
  have a: "\<forall>k. 1 \<le> k \<and> k < 2 \<longrightarrow> suffixed ''Tickets'' k \<in> set [''Tickets'', ''Tickets_1'']"
  proof (intro allI impI)
    fix k :: nat assume "1 \<le> k \<and> k < 2"
    then have "k = 1" by simp
    then show "suffixed ''Tickets'' k \<in> set [''Tickets'', ''Tickets_1'']"
      using s1(1) by (simp only: list.set insert_iff) simp
  qed
  have b: "suffixed ''Tickets'' 2 \<notin> set [''Tickets'', ''Tickets_1'']" by (simp add: s1)
  show ?thesis
    using sheet_name_small_counters[of "''Tickets''" "[''Tickets'', ''Tickets_1'']" 2 "''Tags''", OF _ a b]
    by (simp add: show_nat.simps digit_char_simps)
qed

section \<open>Rows\<close>

lemma map_of_put: "map_of (put r k v) = (map_of r)(k \<mapsto> v)"
  by (induction r) (auto simp: fun_eq_iff)

lemma get_put_same: "get (put r k v) k = v"
  by (simp add: get_def map_of_put)

lemma get_put_other: "k' \<noteq> k \<Longrightarrow> get (put r k v) k' = get r k'"
  by (simp add: get_def map_of_put)

lemma get_put: "get (put r k v) k' = (if k' = k then v else get r k')"
  by (simp add: get_put_same get_put_other)

lemma get_fold_put:
  "get (fold (\<lambda>k acc. if skip k then acc else put acc k (f k)) ks s) key
     = (if key \<in> set ks \<and> \<not> skip key then f key else get s key)"
  by (induction ks arbitrary: s) (auto simp: get_put)




lemma get_fold_put_all:
  "get (fold (\<lambda>k acc. put acc k (f k)) ks s) key = (if key \<in> set ks then f key else get s key)"
  by (induction ks arbitrary: s) (auto simp: get_put)

section \<open>The aggregator\<close>





lemma parseDuration_eval:
  "parseDuration (JStr ''1:00:00'') = 3600" "parseDuration (JStr ''0:30:00'') = 1800"
  "parseDuration (JStr ''0:50:00'') = 3000" "parseDuration (JStr ''0:20:00'') = 1200"
  by (simp_all add: parseDuration_def parseInt_def parseFloat_str_def parse_decimal_def
      parse_exp_def strip_sign_def is_space_def is_digit_def digits_val_def digit_val_def
      signed_def scale10_def)

lemma formatDuration_eval:
  "formatDuration 5400 = ''1:30:00''" "formatDuration 1080 = ''0:18:00''"
  "formatDuration 2280 = ''0:38:00''"
  by (simp_all add: formatDuration_def js_rem_def js_trunc_def show_int_def padStart2_def
      show_nat.simps digit_char_simps)

lemma toFixed2_eval: "toFixed2 (11400 / 5400 * 100) = ''211.11''"
  by (simp add: toFixed2_def show_nat.simps digit_char_simps)

text \<open>
  Claim C2. For a group of two rows with ticket counts 3 and 2, productive durations
  \<open>1:00:00\<close> and \<open>0:30:00\<close> and estimated averages \<open>0:50:00\<close> and \<open>0:20:00\<close>,
  \<open>processTicketsGeneral\<close> stores the count 5, the total productive time
  \<open>formatDuration 5400 = 1:30:00\<close>, the average productive time
  \<open>formatDuration 1080 = 0:18:00\<close>, the average estimated time
  \<open>formatDuration 2280 = 0:38:00\<close> from the reconstructed total of
  \<open>3 * 3000 + 2 * 1200 = 11400\<close> seconds, and the compliance percentage \<open>211.11\<close>.
  Whenever the summed ticket count is 0, both averages are \<open>0:00:00\<close> and the
  compliance percentage is \<open>0.00\<close>.
\<close>

theorem tickets_general_example:
  assumes "get r1 ''Cantidad_Tickets'' = JNum 3" and "get r2 ''Cantidad_Tickets'' = JNum 2"
    and "get r1 ''Total_Tiempo_Productivo'' = JStr ''1:00:00''"
    and "get r2 ''Total_Tiempo_Productivo'' = JStr ''0:30:00''"
    and "get r1 ''Promedio_Tiempo_Estimado'' = JStr ''0:50:00''"
    and "get r2 ''Promedio_Tiempo_Estimado'' = JStr ''0:20:00''"
  shows "get (processTicketsGeneral summaryRow [r1, r2]) ''Cantidad_Tickets'' = JNum 5
    \<and> totalTimeProdSec [r1, r2] = 5400
    \<and> get (processTicketsGeneral summaryRow [r1, r2]) ''Total_Tiempo_Productivo'' = JStr ''1:30:00''
    \<and> formatDuration 5400 = ''1:30:00''
    \<and> get (processTicketsGeneral summaryRow [r1, r2]) ''Promedio_Tiempo_Productivo'' = JStr ''0:18:00''
    \<and> formatDuration 1080 = ''0:18:00''
    \<and> totalEstSec [r1, r2] = 3 * 3000 + 2 * 1200 \<and> totalEstSec [r1, r2] = 11400
    \<and> get (processTicketsGeneral summaryRow [r1, r2]) ''Promedio_Tiempo_Estimado'' = JStr ''0:38:00''
    \<and> formatDuration 2280 = ''0:38:00''
    \<and> get (processTicketsGeneral summaryRow [r1, r2]) ''Porcentaje_Cumplimiento'' = JStr ''211.11''
    \<and> (ticketCount rows = 0 \<longrightarrow>
          get (processTicketsGeneral summaryRow rows) ''Promedio_Tiempo_Productivo'' = JStr ''0:00:00''
        \<and> get (processTicketsGeneral summaryRow rows) ''Promedio_Tiempo_Estimado'' = JStr ''0:00:00''
        \<and> get (processTicketsGeneral summaryRow rows) ''Porcentaje_Cumplimiento'' = JStr ''0.00'')"
proof -
  have cnt: "ticketCount [r1, r2] = 5" using assms by (simp add: ticketCount_def)
  have prod: "totalTimeProdSec [r1, r2] = 5400"
    using assms by (simp add: totalTimeProdSec_def parseDuration_eval)
  have est: "totalEstSec [r1, r2] = 11400"
    using assms by (simp add: totalEstSec_def parseDuration_eval)
  have out: "processTicketsGeneral summaryRow [r1, r2] =
      put (put (put (put (put summaryRow ''Cantidad_Tickets'' (JNum 5))
        ''Total_Tiempo_Productivo'' (JStr ''1:30:00''))
        ''Promedio_Tiempo_Productivo'' (JStr ''0:18:00''))
        ''Promedio_Tiempo_Estimado'' (JStr ''0:38:00''))
        ''Porcentaje_Cumplimiento'' (JStr ''211.11'')"
    unfolding processTicketsGeneral_def Let_def cnt prod est
    using formatDuration_eval toFixed2_eval by simp
  have zero: "get (processTicketsGeneral summaryRow rows) ''Promedio_Tiempo_Productivo'' = JStr ''0:00:00''
        \<and> get (processTicketsGeneral summaryRow rows) ''Promedio_Tiempo_Estimado'' = JStr ''0:00:00''
        \<and> get (processTicketsGeneral summaryRow rows) ''Porcentaje_Cumplimiento'' = JStr ''0.00''"
    if "ticketCount rows = 0"
    unfolding processTicketsGeneral_def Let_def that by (simp add: get_put)
  show ?thesis
    unfolding out using prod est formatDuration_eval zero by (simp add: get_put)
qed

theorem tickets_general_example_witness:
  "get (processTicketsGeneral [(''Mes_Anio'', JStr ''Acumulado 2025''), (''Nombre_Unidad'', JStr ''Pierre Mundo Imperial'')]
      [[(''Cantidad_Tickets'', JNum 3), (''Total_Tiempo_Productivo'', JStr ''1:00:00''),
        (''Promedio_Tiempo_Estimado'', JStr ''0:50:00'')],
       [(''Cantidad_Tickets'', JNum 2), (''Total_Tiempo_Productivo'', JStr ''0:30:00''),
        (''Promedio_Tiempo_Estimado'', JStr ''0:20:00'')]]) ''Porcentaje_Cumplimiento'' = JStr ''211.11''
   \<and> ticketCount [[(''Cantidad_Tickets'', JNum 0)]] = 0
   \<and> get (processTicketsGeneral [] [[(''Cantidad_Tickets'', JNum 0)]]) ''Porcentaje_Cumplimiento'' = JStr ''0.00''"
proof -
  let ?r1 = "[(''Cantidad_Tickets'', JNum 3), (''Total_Tiempo_Productivo'', JStr ''1:00:00''),
        (''Promedio_Tiempo_Estimado'', JStr ''0:50:00'')]"
  let ?r2 = "[(''Cantidad_Tickets'', JNum 2), (''Total_Tiempo_Productivo'', JStr ''0:30:00''),
        (''Promedio_Tiempo_Estimado'', JStr ''0:20:00'')]"
  have z: "ticketCount [[(''Cantidad_Tickets'', JNum 0)]] = 0" by (simp add: ticketCount_def get_def)
  have a: "get (processTicketsGeneral [(''Mes_Anio'', JStr ''Acumulado 2025''), (''Nombre_Unidad'', JStr ''Pierre Mundo Imperial'')]
      [?r1, ?r2]) ''Porcentaje_Cumplimiento'' = JStr ''211.11''"
    using tickets_general_example[of ?r1 ?r2 _ "[]"] by (simp add: get_def)
  have b: "get (processTicketsGeneral [] [[(''Cantidad_Tickets'', JNum 0)]]) ''Porcentaje_Cumplimiento'' = JStr ''0.00''"
    using tickets_general_example[of ?r1 ?r2 "[]" "[[(''Cantidad_Tickets'', JNum 0)]]"] z
    by (simp add: get_def)
  show ?thesis using a b z by simp
qed





lemma drop_na_add_na: "drop_na (add_to_group gs ''N/A'' r) = drop_na gs"
  by (induction gs) (auto simp: drop_na_def)

lemma drop_na_add_other:
  "k \<noteq> ''N/A'' \<Longrightarrow> drop_na (add_to_group gs k r) = add_to_group (drop_na gs) k r"
  by (induction gs) (auto simp: drop_na_def)

lemma na_not_prototype: "''N/A'' \<notin> set object_prototype_names"
  by (simp add: object_prototype_names_def)

lemma groupRows_filter:
  "(case groupRows rows gs of Inl e \<Rightarrow> Inl e | Inr g \<Rightarrow> Inr (drop_na g))
     = groupRows (filter (\<lambda>r. unit_key (get r ''Nombre_Unidad'') \<noteq> ''N/A'') rows) (drop_na gs)"
proof (induction rows arbitrary: gs)
  case Nil
  then show ?case by simp
next
  case (Cons row rest)
  show ?case
  proof (cases "unit_key (get row ''Nombre_Unidad'') = ''N/A''")
    case True
    then show ?thesis
      using Cons.IH[of "add_to_group gs ''N/A'' row"] na_not_prototype
      by (simp add: drop_na_add_na)
  next
    case False
    then show ?thesis
      using Cons.IH[of "add_to_group gs (unit_key (get row ''Nombre_Unidad'')) row"]
      by (simp add: drop_na_add_other Let_def)
  qed
qed

lemma entries_drop_na: "entries (drop_na gs) = drop_na (entries gs)"
  by (simp add: entries_def drop_na_def filter_sort conj_commute)

lemma accumulate_drop_na: "accumulate name (drop_na gs) = accumulate name gs"
  by (induction gs) (auto simp: drop_na_def split: sum.splits)

lemma aggregateData_filter:
  "aggregateData filename (filter (\<lambda>r. unit_key (get r ''Nombre_Unidad'') \<noteq> ''N/A'') data)
     = aggregateData filename data"
proof (cases "data = []")
  case True
  then show ?thesis by simp
next
  case False
  let ?kept = "filter (\<lambda>r. unit_key (get r ''Nombre_Unidad'') \<noteq> ''N/A'') data"
  have g: "(case groupRows data [] of Inl e \<Rightarrow> Inl e | Inr g \<Rightarrow> Inr (drop_na g)) = groupRows ?kept []"
    using groupRows_filter[of data "[]"] by (simp add: drop_na_def)
  have acc: "accumulate n (entries (drop_na gs)) = accumulate n (entries gs)" for n gs
    by (simp add: entries_drop_na accumulate_drop_na)
  have full: "aggregateData filename data =
      (case groupRows ?kept [] of Inl e \<Rightarrow> Inl e
       | Inr groups \<Rightarrow> accumulate (report_name filename) (entries groups))"
    using False unfolding g[symmetric] aggregateData_def
    by (simp add: acc split: sum.splits)
  show ?thesis
  proof (cases "?kept = []")
    case True
    then show ?thesis unfolding full by (simp add: aggregateData_def entries_def)
  next
    case False
    then show ?thesis unfolding full by (simp add: aggregateData_def)
  qed
qed

lemma hd_show_nat_digit: "is_digit (hd (show_nat n))"
  using show_nat_digits[of n] show_nat_nonempty[of n] by (cases "show_nat n") auto

lemma num_to_string_not_na: "num_to_string x \<noteq> ''N/A''"
proof (cases "x < 0")
  case True
  then show ?thesis by (simp add: num_to_string_def Let_def)
next
  case False
  have "hd (num_to_string x) = hd (show_nat (nat \<lfloor>\<bar>x\<bar>\<rfloor>))"
    using False show_nat_nonempty by (simp add: num_to_string_def Let_def)
  then have "is_digit (hd (num_to_string x))" by (simp add: hd_show_nat_digit)
  moreover have "\<not> is_digit (hd ''N/A'')" by (simp add: is_digit_def)
  ultimately show ?thesis by metis
qed

lemma unit_key_na_iff: "unit_key v = ''N/A'' \<longleftrightarrow> \<not> truthy v \<or> v = JStr ''N/A''"
  by (cases v) (auto simp: unit_key_def num_to_string_not_na)

lemma processGenericCounts_unit:
  "processGenericCounts summaryRow rows = Inr out
     \<Longrightarrow> get out ''Nombre_Unidad'' = get summaryRow ''Nombre_Unidad''"
  by (cases rows) (auto simp: get_fold_put)

lemma processTicketsGeneral_unit:
  "get (processTicketsGeneral summaryRow rows) ''Nombre_Unidad'' = get summaryRow ''Nombre_Unidad''"
  by (simp add: processTicketsGeneral_def Let_def get_put)

lemma dispatch_unit:
  "dispatch name summaryRow rows = Inr out
     \<Longrightarrow> get out ''Nombre_Unidad'' = get summaryRow ''Nombre_Unidad''"
  unfolding dispatch_def processGlitches_def
  by (auto simp: processTicketsGeneral_unit split: if_splits dest: processGenericCounts_unit)

lemma accumulate_units:
  "accumulate name gs = Inr out \<Longrightarrow> \<forall>r \<in> set out. get r ''Nombre_Unidad'' \<noteq> JStr ''N/A''"
proof (induction gs arbitrary: out)
  case Nil
  then show ?case by simp
next
  case (Cons g gs)
  show ?case
  proof (cases "fst g = ''N/A''")
    case True
    with Cons show ?thesis by simp
  next
    case False
    with Cons.prems obtain s rest where
      d: "dispatch name [(''Mes_Anio'', JStr ''Acumulado 2025''), (''Nombre_Unidad'', JStr (fst g))] (snd g) = Inr s"
      and a: "accumulate name gs = Inr rest" and o: "out = s # rest"
      by (auto split: sum.splits)
    have "get s ''Nombre_Unidad'' = JStr (fst g)"
      using dispatch_unit[OF d] by (simp add: get_def)
    with False Cons.IH[OF a] o show ?thesis by simp
  qed
qed

lemma aggregateData_units:
  "aggregateData filename data = Inr out \<Longrightarrow> \<forall>r \<in> set out. get r ''Nombre_Unidad'' \<noteq> JStr ''N/A''"
  unfolding aggregateData_def
  by (auto split: if_splits sum.splits dest: accumulate_units)

text \<open>
  Claim C9. In \<open>aggregateData\<close> a row whose unit value is the string \<open>N/A\<close>, the
  empty string, the number 0, \<open>null\<close> or absent is grouped under the key \<open>N/A\<close>
  (as is every falsy value, and nothing else), and the group of that key gives no
  accumulation row: the result is the one the report gives without these rows, and
  no accumulation row carries the unit \<open>N/A\<close>. A unit really named \<open>N/A\<close> is
  therefore left out like a missing one.
\<close>

theorem unknown_unit_dropped:
  "unit_key (JStr ''N/A'') = ''N/A'' \<and> unit_key (JStr []) = ''N/A'' \<and> unit_key (JNum 0) = ''N/A''
   \<and> unit_key JNull = ''N/A'' \<and> unit_key (get [] ''Nombre_Unidad'') = ''N/A''
   \<and> (unit_key v = ''N/A'' \<longleftrightarrow> \<not> truthy v \<or> v = JStr ''N/A'')
   \<and> aggregateData filename (filter (\<lambda>r. unit_key (get r ''Nombre_Unidad'') \<noteq> ''N/A'') data)
       = aggregateData filename data
   \<and> (aggregateData filename data = Inr out
        \<longrightarrow> (\<forall>r \<in> set out. get r ''Nombre_Unidad'' \<noteq> JStr ''N/A''))"
  using unit_key_na_iff[of v] aggregateData_filter[of filename data]
    aggregateData_units[of filename data out]
  by (simp add: unit_key_def get_def)

lemma report_name_r: "report_name ''r.json'' = ''R''"
  by code_simp

lemma aggregate_na_data:
  "aggregateData ''r.json'' na_data =
     Inr [[(''Mes_Anio'', JStr ''Acumulado 2025''), (''Nombre_Unidad'', JStr ''Pierre''), (''Total'', JNum 2)]]"
  unfolding aggregateData_def report_name_r
  by (simp add: na_data_def unit_key_def get_def object_prototype_names_def entries_def
      index_key_def is_digit_def dispatch_def startsWith_def keys_def genericColumn_def Let_def)

theorem unknown_unit_dropped_witness:
  "aggregateData ''r.json'' na_data =
     Inr [[(''Mes_Anio'', JStr ''Acumulado 2025''), (''Nombre_Unidad'', JStr ''Pierre''), (''Total'', JNum 2)]]
   \<and> get [(''Mes_Anio'', JStr ''Acumulado 2025''), (''Nombre_Unidad'', JStr ''Pierre''), (''Total'', JNum 2)]
        ''Nombre_Unidad'' \<noteq> JStr ''N/A''
   \<and> aggregateData ''r.json'' (filter (\<lambda>r. unit_key (get r ''Nombre_Unidad'') \<noteq> ''N/A'') na_data)
       = aggregateData ''r.json'' na_data"
  using unknown_unit_dropped[of JNull "''r.json''" na_data
      "[[(''Mes_Anio'', JStr ''Acumulado 2025''), (''Nombre_Unidad'', JStr ''Pierre''), (''Total'', JNum 2)]]"]
    aggregate_na_data
  by simp

section \<open>The gap filler\<close>

lemma set_uniq_fold:
  "set (fold (\<lambda>x acc. if x \<in> set acc then acc else acc @ [x]) xs acc) = set xs \<union> set acc"
  by (induction xs arbitrary: acc) auto


lemma set_uniq: "set (uniq xs) = set xs"
  by (simp add: uniq_def set_uniq_fold)


lemma get_zeroRow:
  "get (zeroRow ks month unit) key = (if key \<in> set ks then zeroValue month unit key else JUndef)"
  by (simp add: zeroRow_def get_fold_put_all) (simp add: get_def)

lemma find_SomeD: "find P xs = Some e \<Longrightarrow> P e \<and> e \<in> set xs"
  by (induction xs) (auto split: if_splits)

lemma unitBlock_month:
  assumes "''Mes_Anio'' \<in> set ks" and "''Nombre_Unidad'' \<in> set ks"
  shows "map period_unit
           (if JStr month \<in> set (uniq (map (\<lambda>r. get r ''Mes_Anio'') (filter (\<lambda>r. get r ''Nombre_Unidad'' = unit) data)))
            then (case find (\<lambda>r. get r ''Mes_Anio'' = JStr month) (filter (\<lambda>r. get r ''Nombre_Unidad'' = unit) data) of
                    Some existing \<Rightarrow> [existing]
                  | None \<Rightarrow> [])
            else [zeroRow ks month unit])
         = [(JStr month, unit)]"
proof (cases "JStr month \<in> set (uniq (map (\<lambda>r. get r ''Mes_Anio'') (filter (\<lambda>r. get r ''Nombre_Unidad'' = unit) data)))")
  case True
  let ?rows = "filter (\<lambda>r. get r ''Nombre_Unidad'' = unit) data"
  from True obtain r where "r \<in> set ?rows" "get r ''Mes_Anio'' = JStr month"
    by (auto simp: set_uniq)
  then have "find (\<lambda>r. get r ''Mes_Anio'' = JStr month) ?rows \<noteq> None"
    by (auto simp: find_None_iff)
  then obtain e where e: "find (\<lambda>r. get r ''Mes_Anio'' = JStr month) ?rows = Some e" by auto
  then have "get e ''Mes_Anio'' = JStr month" "e \<in> set ?rows"
    using find_SomeD[OF e] by auto
  then have "period_unit e = (JStr month, unit)" by (simp add: period_unit_def)
  with True e show ?thesis by simp
next
  case False
  then show ?thesis using assms by (simp add: period_unit_def get_zeroRow zeroValue_def)
qed

lemma concat_map_singleton: "concat (map (\<lambda>x. [g x]) xs) = map g xs"
  by (induction xs) auto

lemma unitBlock_pairs:
  assumes "''Mes_Anio'' \<in> set ks" and "''Nombre_Unidad'' \<in> set ks"
  shows "map period_unit (unitBlock data ks unit) = map (\<lambda>month. (JStr month, unit)) MONTHS_2025"
proof -
  have "map period_unit (unitBlock data ks unit)
      = concat (map (\<lambda>month. [(JStr month, unit)]) MONTHS_2025)"
    unfolding unitBlock_def Let_def map_concat map_map comp_def
    by (simp only: unitBlock_month[OF assms])
  then show ?thesis by (simp only: concat_map_singleton)
qed

lemma set_insort_cmp: "set (insort_cmp cmp x ys) = insert x (set ys)"
  by (induction ys) auto



lemma set_js_sort: "set (js_sort cmp xs) = set xs"
  by (induction xs) (auto simp: js_sort_def set_insort_cmp)








lemma grid_set:
  "set (concat (map (\<lambda>u. map (\<lambda>m. (JStr m, u)) ms) us)) = (JStr ` set ms) \<times> set us"
  by (induction us) auto


lemma filled_pairs:
  assumes "''Mes_Anio'' \<in> set ks" and "''Nombre_Unidad'' \<in> set ks"
  shows "map period_unit (concat (map (unitBlock data ks) us))
           = concat (map (\<lambda>u. map (\<lambda>m. (JStr m, u)) MONTHS_2025) us)"
  by (induction us) (simp_all add: unitBlock_pairs[OF assms])

lemma fill_active:
  assumes "gap_filling_active data"
  shows "fillMissingMonths data =
           js_sort compareRows
             (concat (map (unitBlock data (keys (hd data))) (uniq (map (\<lambda>r. get r ''Nombre_Unidad'') data))))"
    and "''Mes_Anio'' \<in> set (keys (hd data))" and "''Nombre_Unidad'' \<in> set (keys (hd data))"
  using assms by (simp_all add: gap_filling_active_def fillMissingMonths_def hasOwnProperty_def keys_def)

lemma fill_pairs_set:
  assumes "gap_filling_active data"
  shows "period_unit ` set (fillMissingMonths data)
           = (JStr ` set MONTHS_2025) \<times> ((\<lambda>r. get r ''Nombre_Unidad'') ` set data)"
proof -
  let ?us = "uniq (map (\<lambda>r. get r ''Nombre_Unidad'') data)"
  let ?filled = "concat (map (unitBlock data (keys (hd data))) ?us)"
  have "period_unit ` set (fillMissingMonths data) = set (map period_unit ?filled)"
    by (simp add: fill_active(1)[OF assms] set_js_sort)
  also have "\<dots> = (JStr ` set MONTHS_2025) \<times> set ?us"
    by (simp only: filled_pairs[OF fill_active(2,3)[OF assms]] grid_set)
  finally show ?thesis by (simp add: set_uniq)
qed















text \<open>
  Claim C10. When gap filling is active, every row of the result carries a label of
  the calendar, and an input row whose label is not one of the twelve is not in the
  result.
\<close>

theorem gap_fill_calendar_only:
  assumes "gap_filling_active data"
  shows "(\<forall>r \<in> set (fillMissingMonths data). \<exists>m \<in> set MONTHS_2025. get r ''Mes_Anio'' = JStr m)
    \<and> (\<forall>r \<in> set data. get r ''Mes_Anio'' \<notin> JStr ` set MONTHS_2025
          \<longrightarrow> r \<notin> set (fillMissingMonths data))"
proof -
  have *: "\<exists>m \<in> set MONTHS_2025. get r ''Mes_Anio'' = JStr m" if "r \<in> set (fillMissingMonths data)" for r
  proof -
    have "period_unit r \<in> (JStr ` set MONTHS_2025) \<times> ((\<lambda>r. get r ''Nombre_Unidad'') ` set data)"
      using fill_pairs_set[OF assms] that by blast
    then show ?thesis by (auto simp: period_unit_def)
  qed
  then show ?thesis by blast
qed

theorem gap_fill_calendar_only_witness:
  "gap_filling_active old_label
   \<and> hd old_label \<in> set old_label
   \<and> get (hd old_label) ''Mes_Anio'' \<notin> JStr ` set MONTHS_2025
   \<and> hd old_label \<notin> set (fillMissingMonths old_label)"
proof -
  have a: "gap_filling_active old_label"
    by (simp add: gap_filling_active_def old_label_def hasOwnProperty_def)
  have b: "get (hd old_label) ''Mes_Anio'' \<notin> JStr ` set MONTHS_2025"
    by (simp add: old_label_def get_def MONTHS_2025_def)
  have c: "hd old_label \<in> set old_label" by (simp add: old_label_def)
  show ?thesis using gap_fill_calendar_only[OF a] a b c by blast
qed




text \<open>
  Without both columns in the first row (or on an empty series) the gap filler returns
  its input unchanged.
\<close>

theorem gap_fill_inactive:
  "\<not> gap_filling_active data \<Longrightarrow> fillMissingMonths data = data"
  by (auto simp: gap_filling_active_def fillMissingMonths_def)

theorem gap_fill_inactive_witness:
  "\<not> gap_filling_active [[(''Departamento'', JStr ''TI''), (''Total'', JNum 4)]]
   \<and> fillMissingMonths [[(''Departamento'', JStr ''TI''), (''Total'', JNum 4)]]
       = [[(''Departamento'', JStr ''TI''), (''Total'', JNum 4)]]"
proof -
  have a: "\<not> gap_filling_active [[(''Departamento'', JStr ''TI''), (''Total'', JNum 4)]]"
    by (simp add: gap_filling_active_def hasOwnProperty_def)
  show ?thesis using gap_fill_inactive[OF a] a by simp
qed

section \<open>The totals row of a pivot table\<close>







lemma space_not_token:
  "is_space c \<Longrightarrow> \<not> is_digit c \<and> c \<noteq> CHR ''.'' \<and> c \<noteq> CHR ''e'' \<and> c \<noteq> CHR ''E''
     \<and> c \<noteq> CHR ''+'' \<and> c \<noteq> CHR ''-''"
  by (auto simp: is_space_def is_digit_def)

lemma takeWhile_append_none: "\<forall>c \<in> set ws. \<not> P c \<Longrightarrow> takeWhile P (u @ ws) = takeWhile P u"
  by (induction u) (auto simp: takeWhile_eq_Nil_iff)

lemma dropWhile_append_none: "\<forall>c \<in> set ws. \<not> P c \<Longrightarrow> dropWhile P (u @ ws) = dropWhile P u @ ws"
  by (induction u) (auto simp: dropWhile_eq_self_iff)

lemma strip_sign_append:
  assumes "\<forall>c \<in> set ws. is_space c"
  shows "strip_sign (u @ ws) = (fst (strip_sign u), snd (strip_sign u) @ ws)"
proof (cases u)
  case Nil
  then show ?thesis using assms space_not_token by (cases ws) (auto simp: strip_sign_def)
next
  case (Cons c r)
  then show ?thesis by (simp add: strip_sign_def)
qed

lemma parse_exp_append:
  assumes ws: "\<forall>c \<in> set ws. is_space c"
  shows "parse_exp (r @ ws) = (fst (parse_exp r), snd (parse_exp r) @ ws)"
proof (cases r)
  case Nil
  then show ?thesis using ws space_not_token by (cases ws) (auto simp: parse_exp_def)
next
  case (Cons c r')
  have nd: "\<forall>c \<in> set ws. \<not> is_digit c" using ws space_not_token by blast
  show ?thesis
    unfolding Cons
    by (simp add: parse_exp_def strip_sign_append[OF ws] takeWhile_append_none[OF nd]
        dropWhile_append_none[OF nd] split_beta Let_def)
qed

lemma parse_decimal_append:
  assumes ws: "\<forall>c \<in> set ws. is_space c" and p: "parse_decimal u = Some (x, rest)"
  shows "parse_decimal (u @ ws) = Some (x, rest @ ws)"
proof -
  have nd: "\<forall>c \<in> set ws. \<not> is_digit c" using ws space_not_token by blast
  let ?r1 = "dropWhile is_digit u"
  have dot: "(?r1 @ ws \<noteq> [] \<and> hd (?r1 @ ws) = CHR ''.'') = (?r1 \<noteq> [] \<and> hd ?r1 = CHR ''.'')"
  proof (cases "?r1 = []")
    case True
    have "ws \<noteq> [] \<Longrightarrow> hd ws \<noteq> CHR ''.''"
      using ws space_not_token[of "hd ws"] by (cases ws) auto
    then show ?thesis unfolding True by auto
  next
    case False
    then show ?thesis by simp
  qed
  have tl: "?r1 \<noteq> [] \<Longrightarrow> tl (?r1 @ ws) = tl ?r1 @ ws" by simp
  show ?thesis
    using p
    unfolding parse_decimal_def Let_def takeWhile_append_none[OF nd] dropWhile_append_none[OF nd] dot
    by (auto simp: tl takeWhile_append_none[OF nd] dropWhile_append_none[OF nd]
        parse_exp_append[OF ws] split_beta split: if_splits)
qed

lemma trim_decomp:
  "\<exists>ws. (\<forall>c \<in> set ws. is_space c) \<and> dropWhile is_space s = trim s @ ws"
proof -
  let ?d = "dropWhile is_space s"
  have "rev ?d = takeWhile is_space (rev ?d) @ dropWhile is_space (rev ?d)" by simp
  then have "rev (rev ?d) = rev (takeWhile is_space (rev ?d) @ dropWhile is_space (rev ?d))"
    by (rule arg_cong)
  then have "?d = trim s @ rev (takeWhile is_space (rev ?d))"
    unfolding rev_append rev_rev_ident trim_def .
  moreover have "\<forall>c \<in> set (rev (takeWhile is_space (rev ?d))). is_space c"
    by (auto dest: set_takeWhileD)
  ultimately show ?thesis by blast
qed

text \<open>
  A text that \<open>Number\<close> reads as a decimal literal (not through a radix prefix, and
  not as the empty string) is read by \<open>parseFloat\<close> as the same number.
\<close>

lemma Number_parseFloat_agree:
  assumes "StringToNumber s = Some x" and "trim s \<noteq> []"
    and "\<not> (startsWith (trim s) ''0x'' \<or> startsWith (trim s) ''0X'' \<or> startsWith (trim s) ''0o''
            \<or> startsWith (trim s) ''0O'' \<or> startsWith (trim s) ''0b'' \<or> startsWith (trim s) ''0B'')"
  shows "parseFloat_str s = Some x"
proof -
  obtain ws where ws: "\<forall>c \<in> set ws. is_space c" "dropWhile is_space s = trim s @ ws"
    using trim_decomp by blast
  obtain neg u where su: "strip_sign (trim s) = (neg, u)" by (cases "strip_sign (trim s)") auto
  from assms obtain y where y: "parse_decimal u = Some (y, [])" "x = signed neg y"
    by (auto simp: StringToNumber_def Let_def su split: option.splits if_splits)
  have "strip_sign (dropWhile is_space s) = (neg, u @ ws)"
    by (simp add: ws(2) strip_sign_append[OF ws(1)] su)
  moreover have "parse_decimal (u @ ws) = Some (y, ws)"
    using parse_decimal_append[OF ws(1) y(1)] by simp
  ultimately show ?thesis by (simp add: parseFloat_str_def y(2))
qed

lemma plain_cell_number: "plain_cell (JNum x)"
  by (simp add: plain_cell_def)

lemma plain_cell_decimal_text:
  assumes "\<not> (startsWith (trim s) ''0x'' \<or> startsWith (trim s) ''0X'' \<or> startsWith (trim s) ''0o''
            \<or> startsWith (trim s) ''0O'' \<or> startsWith (trim s) ''0b'' \<or> startsWith (trim s) ''0B'')"
  shows "plain_cell (JStr s)"
proof (cases "StringToNumber s")
  case None
  then show ?thesis by (simp add: plain_cell_def)
next
  case (Some x)
  show ?thesis
  proof (cases "trim s = []")
    case True
    then have "x = 0" using Some by (simp add: StringToNumber_def)
    then show ?thesis using Some by (simp add: plain_cell_def)
  next
    case False
    then show ?thesis using Number_parseFloat_agree[OF Some False assms] Some
      by (simp add: plain_cell_def)
  qed
qed

text \<open>
  The two readings differ on a text with a radix prefix: \<open>Number\<close> reads \<open>0x10\<close> as
  16 and \<open>parseFloat\<close> as 0, so such a cell counts as a positive row and adds nothing
  to the sum.
\<close>

lemma radix_cell_not_plain:
  "Number (JStr ''0x10'') = Some 16 \<and> parseFloat (JStr ''0x10'') = Some 0
   \<and> \<not> plain_cell (JStr ''0x10'')"
proof -
  have n: "StringToNumber ''0x10'' = Some 16"
    by (simp add: StringToNumber_def trim_def is_space_def startsWith_def radix_val_def
        radix_digit_def)
  have p: "parseFloat_str ''0x10'' = Some 0"
    by (simp add: parseFloat_str_def parse_decimal_def parse_exp_def strip_sign_def
        is_space_def is_digit_def digits_val_def digit_val_def signed_def scale10_def)
  show ?thesis by (simp add: plain_cell_def n p)
qed












end
